theory Spec2Isabelle
  imports Main
begin

section \<open>Run-time values, errors and callbacks\<close>

text \<open>
  The class \<open>OptionalValue<T>\<close> of \<open>common.d.ts\<close> is generic; at run time a variable of
  static type \<open>T | null | undefined\<close> holds \<open>null\<close>, \<open>undefined\<close>, or a proper value.
  The type parameter \<open>'a\<close> stands for the proper (non-nullish) values, and equality of
  \<open>'a js_value\<close> stands for the identity of the value handed back: every method that
  returns the wrapped value returns the stored reference itself.
\<close>

datatype 'a js_value = Null | Undefined | Val 'a

text \<open>\<open>new Error(message)\<close>: the only error the class constructs itself.\<close>

datatype js_error = Error string

text \<open>
  A caller-supplied function runs on the caller's state \<open>'s\<close>. It either returns a result
  (\<open>Inr\<close>) or throws (\<open>Inl\<close>); in both cases the state it leaves behind is kept.
\<close>

type_synonym ('s, 'r) js_fun = "'s \<Rightarrow> (js_error + 'r) \<times> 's"

section \<open>The class\<close>

text \<open>\<open>private readonly value: Nullable<T>\<close> is the only field.\<close>

record 'a OptionalValue =
  "value" :: "'a js_value"

text \<open>
  Objects live in a store; a reference is the position of the object in it. The field is
  \<open>readonly\<close> and no method assigns it, so the store only ever grows.
\<close>

type_synonym ref = nat

type_synonym 'a heap = "'a OptionalValue list"

definition lookup :: "'a heap \<Rightarrow> ref \<Rightarrow> 'a OptionalValue option" where
  "lookup h r = (if r < length h then Some (h ! r) else None)"

text \<open>The private constructor: \<open>new OptionalValue(value)\<close> allocates and sets the field.\<close>

definition OptionalValue_new :: "'a js_value \<Rightarrow> 'a heap \<Rightarrow> ref \<times> 'a heap" where
  "OptionalValue_new v h = (length h, h @ [\<lparr>value = v\<rparr>])"

text \<open>
  \<^verbatim>\<open>static of<T>(value: T)\<close>: throws on \<open>null\<close> and \<open>undefined\<close>, before anything is
  allocated.
\<close>

definition OptionalValue_of :: "'a js_value \<Rightarrow> 'a heap \<Rightarrow> js_error + ref \<times> 'a heap" where
  "OptionalValue_of v h =
     (if v = Null \<or> v = Undefined
      then Inl (Error ''Value cannot be null or undefined'')
      else Inr (OptionalValue_new v h))"

text \<open>\<^verbatim>\<open>static ofNullable<T>(value: T | null | undefined)\<close>: stores the argument as it is.\<close>

definition ofNullable :: "'a js_value \<Rightarrow> 'a heap \<Rightarrow> ref \<times> 'a heap" where
  "ofNullable v h = OptionalValue_new v h"

text \<open>\<^verbatim>\<open>static empty<T>()\<close>: stores \<open>null\<close>.\<close>

definition OptionalValue_empty :: "'a heap \<Rightarrow> ref \<times> 'a heap" where
  "OptionalValue_empty h = OptionalValue_new Null h"

text \<open>The instance methods only read \<open>this.value\<close>; they take the object \<open>this\<close>.\<close>

definition get :: "'a OptionalValue \<Rightarrow> 'a js_value" where
  "get this = value this"

definition isPresent :: "'a OptionalValue \<Rightarrow> bool" where
  "isPresent this = (value this \<noteq> Null \<and> value this \<noteq> Undefined)"

text \<open>
  \<open>ifPresent\<close> has no \<open>return\<close> statement: whatever the consumer returns is dropped, and
  what it throws propagates.
\<close>

definition ifPresent ::
  "'a OptionalValue \<Rightarrow> ('a js_value \<Rightarrow> ('s, 'r) js_fun) \<Rightarrow> ('s, unit) js_fun" where
  "ifPresent this consumer s =
     (if isPresent this
      then (case consumer (value this) s of
              (Inl e, s') \<Rightarrow> (Inl e, s')
            | (Inr _, s') \<Rightarrow> (Inr (), s'))
      else (Inr (), s))"

definition orElse :: "'a OptionalValue \<Rightarrow> 'a js_value \<Rightarrow> 'a js_value" where
  "orElse this other = (if isPresent this then value this else other)"

definition orElseGet ::
  "'a OptionalValue \<Rightarrow> ('s, 'a js_value) js_fun \<Rightarrow> ('s, 'a js_value) js_fun" where
  "orElseGet this supplier s = (if isPresent this then (Inr (value this), s) else supplier s)"

text \<open>
  \<open>throw error()\<close>: the factory runs first; if it returns, what it returned is thrown, and if
  it throws itself, that error propagates.
\<close>

definition orElseThrow ::
  "'a OptionalValue \<Rightarrow> ('s, js_error) js_fun \<Rightarrow> ('s, 'a js_value) js_fun" where
  "orElseThrow this error s =
     (if isPresent this then (Inr (value this), s)
      else (case error s of
              (Inl e, s') \<Rightarrow> (Inl e, s')
            | (Inr e, s') \<Rightarrow> (Inl e, s')))"

section \<open>Observing calls\<close>

text \<open>
  To count how often a method runs a callback, the callback is wrapped so that every run
  leaves a mark in the state: \<open>counting\<close> adds one to a counter, \<open>recording\<close> appends the
  argument it was called with to a log. The wrapped callback behaves as the original one
  on the rest of the state.
\<close>

definition counting :: "('s, 'r) js_fun \<Rightarrow> (nat \<times> 's, 'r) js_fun" where
  "counting f = (\<lambda>(n, s). case f s of (r, s') \<Rightarrow> (r, (Suc n, s')))"

definition recording ::
  "('v \<Rightarrow> ('s, 'r) js_fun) \<Rightarrow> ('v \<Rightarrow> ('v list \<times> 's, 'r) js_fun)" where
  "recording c = (\<lambda>v (log, s). case c v s of (r, s') \<Rightarrow> (r, (log @ [v], s')))"

section \<open>The public interface as a whole\<close>

text \<open>
  One constructor per public member of the class, and \<open>run\<close>, which performs the call on
  the store and the caller's state. A call either throws or returns a reference, a value,
  a boolean or nothing.
\<close>

datatype ('a, 's, 'r) call =
    CallOf "'a js_value"
  | CallOfNullable "'a js_value"
  | CallEmpty
  | CallGet "'a OptionalValue"
  | CallIsPresent "'a OptionalValue"
  | CallIfPresent "'a OptionalValue" "'a js_value \<Rightarrow> ('s, 'r) js_fun"
  | CallOrElse "'a OptionalValue" "'a js_value"
  | CallOrElseGet "'a OptionalValue" "('s, 'a js_value) js_fun"
  | CallOrElseThrow "'a OptionalValue" "('s, js_error) js_fun"

datatype 'a returned = Instance ref | Value "'a js_value" | Boolean bool | Void

fun run :: "('a, 's, 'r) call \<Rightarrow> 'a heap \<times> 's \<Rightarrow> (js_error + 'a returned) \<times> ('a heap \<times> 's)" where
  "run (CallOf v) (h, s) =
     (case OptionalValue_of v h of
        Inl e \<Rightarrow> (Inl e, (h, s))
      | Inr (r, h') \<Rightarrow> (Inr (Instance r), (h', s)))"
| "run (CallOfNullable v) (h, s) =
     (case ofNullable v h of (r, h') \<Rightarrow> (Inr (Instance r), (h', s)))"
| "run CallEmpty (h, s) =
     (case OptionalValue_empty h of (r, h') \<Rightarrow> (Inr (Instance r), (h', s)))"
| "run (CallGet this) (h, s) = (Inr (Value (get this)), (h, s))"
| "run (CallIsPresent this) (h, s) = (Inr (Boolean (isPresent this)), (h, s))"
| "run (CallIfPresent this consumer) (h, s) =
     (case ifPresent this consumer s of
        (Inl e, s') \<Rightarrow> (Inl e, (h, s'))
      | (Inr _, s') \<Rightarrow> (Inr Void, (h, s')))"
| "run (CallOrElse this other) (h, s) = (Inr (Value (orElse this other)), (h, s))"
| "run (CallOrElseGet this supplier) (h, s) =
     (case orElseGet this supplier s of
        (Inl e, s') \<Rightarrow> (Inl e, (h, s'))
      | (Inr v, s') \<Rightarrow> (Inr (Value v), (h, s')))"
| "run (CallOrElseThrow this error) (h, s) =
     (case orElseThrow this error s of
        (Inl e, s') \<Rightarrow> (Inl e, (h, s'))
      | (Inr v, s') \<Rightarrow> (Inr (Value v), (h, s')))"

text \<open>
  The callback a call carries returns normally when it is run on the caller's state
  (with the wrapped value as argument, for a consumer).
\<close>

fun callback_returns :: "('a, 's, 'r) call \<Rightarrow> 's \<Rightarrow> bool" where
  "callback_returns (CallIfPresent this consumer) s = (\<not> isl (fst (consumer (value this) s)))"
| "callback_returns (CallOrElseGet this supplier) s = (\<not> isl (fst (supplier s)))"
| "callback_returns (CallOrElseThrow this error) s = (\<not> isl (fst (error s)))"
| "callback_returns _ s = True"

section \<open>Failure of a call\<close>

lemma run_of_fails: "isl (fst (run (CallOf v) (h, s))) = (v = Null \<or> v = Undefined)"
  by (simp add: OptionalValue_of_def OptionalValue_new_def)

lemma run_orElseThrow_fails:
  "isl (fst (run (CallOrElseThrow this error) (h, s))) = (\<not> isPresent this)"
  by (simp add: orElseThrow_def split: prod.split sum.split)

lemma run_ifPresent_returns:
  "\<not> isl (fst (consumer (value this) s)) \<Longrightarrow>
     \<not> isl (fst (run (CallIfPresent this consumer) (h, s)))"
  by (auto simp: ifPresent_def split: prod.split sum.split)

lemma run_orElseGet_returns:
  "\<not> isl (fst (supplier s)) \<Longrightarrow> \<not> isl (fst (run (CallOrElseGet this supplier) (h, s)))"
  by (auto simp: orElseGet_def split: prod.split sum.split)

lemma run_fails_iff:
  assumes "callback_returns c s"
  shows "isl (fst (run c (h, s)))
           = ((\<exists>v. c = CallOf v \<and> (v = Null \<or> v = Undefined))
              \<or> (\<exists>this error. c = CallOrElseThrow this error \<and> \<not> isPresent this))"
proof (cases c)
  case (CallOf v)
  then show ?thesis using run_of_fails [of v h s] by simp
next
  case (CallOfNullable v)
  then show ?thesis by (simp add: ofNullable_def OptionalValue_new_def)
next
  case CallEmpty
  then show ?thesis by (simp add: OptionalValue_empty_def OptionalValue_new_def)
next
  case (CallGet this)
  then show ?thesis by simp
next
  case (CallIsPresent this)
  then show ?thesis by simp
next
  case (CallIfPresent this consumer)
  with assms show ?thesis using run_ifPresent_returns [of consumer this s h] by simp
next
  case (CallOrElse this other)
  then show ?thesis by simp
next
  case (CallOrElseGet this supplier)
  with assms show ?thesis using run_orElseGet_returns [of supplier s this h] by simp
next
  case (CallOrElseThrow this error)
  then show ?thesis using run_orElseThrow_fails [of this error h s] by simp
qed

lemma run_error:
  assumes "callback_returns c s" and "fst (run c (h, s)) = Inl e"
  shows "(\<exists>v. c = CallOf v \<and> e = Error ''Value cannot be null or undefined'')
         \<or> (\<exists>this error. c = CallOrElseThrow this error \<and> fst (error s) = Inr e)"
proof (cases c)
  case (CallOf v)
  with assms(2) show ?thesis
    by (auto simp: OptionalValue_of_def OptionalValue_new_def split: if_splits)
next
  case (CallOfNullable v)
  with assms(2) show ?thesis by (simp add: ofNullable_def OptionalValue_new_def)
next
  case CallEmpty
  with assms(2) show ?thesis by (simp add: OptionalValue_empty_def OptionalValue_new_def)
next
  case (CallGet this)
  with assms(2) show ?thesis by simp
next
  case (CallIsPresent this)
  with assms(2) show ?thesis by simp
next
  case (CallIfPresent this consumer)
  with assms show ?thesis
    by (auto simp: ifPresent_def split: if_splits prod.splits sum.splits)
next
  case (CallOrElse this other)
  with assms(2) show ?thesis by simp
next
  case (CallOrElseGet this supplier)
  with assms show ?thesis
    by (auto simp: orElseGet_def split: if_splits prod.splits sum.splits)
next
  case (CallOrElseThrow this error)
  with assms show ?thesis
    by (auto simp: orElseThrow_def split: if_splits prod.splits sum.splits)
qed

section \<open>The factory operations\<close>

text \<open>
  Claim C1. \<open>of(value)\<close> throws exactly when \<open>value\<close> is \<open>null\<close> or \<open>undefined\<close>, and
  what it throws is the error with the message "Value cannot be null or undefined" (the
  error the specification calls InvalidArgument). For every other \<open>v\<close> it returns a
  reference that was not in the store before, to a new object appended to the store; that
  object is present and \<open>get\<close> on it returns \<open>v\<close>.
\<close>

theorem of_fails_iff_absent:
  "((\<exists>e. OptionalValue_of v h = Inl e) \<longleftrightarrow> (v = Null \<or> v = Undefined))
   \<and> (v = Null \<or> v = Undefined \<longrightarrow>
        OptionalValue_of v h = Inl (Error ''Value cannot be null or undefined''))
   \<and> (v \<noteq> Null \<and> v \<noteq> Undefined \<longrightarrow>
        (\<exists>r h' this. OptionalValue_of v h = Inr (r, h')
           \<and> lookup h r = None \<and> h' = h @ [this] \<and> lookup h' r = Some this
           \<and> isPresent this \<and> get this = v))"
  by (simp add: OptionalValue_of_def OptionalValue_new_def lookup_def isPresent_def get_def)

theorem of_fails_iff_absent_witness:
  "OptionalValue_of (Null :: nat js_value) []
     = Inl (Error ''Value cannot be null or undefined'')
   \<and> OptionalValue_of (Undefined :: nat js_value) []
     = Inl (Error ''Value cannot be null or undefined'')
   \<and> (Val (5 :: nat) \<noteq> Null \<and> Val (5 :: nat) \<noteq> Undefined)
   \<and> (\<nexists>e. OptionalValue_of (Val (5 :: nat)) [] = Inl e)
   \<and> (\<exists>r h' this. OptionalValue_of (Val (5 :: nat)) [] = Inr (r, h')
         \<and> lookup ([] :: nat heap) r = None \<and> h' = [] @ [this] \<and> lookup h' r = Some this
         \<and> isPresent this \<and> get this = Val 5)"
  using of_fails_iff_absent [of "Null :: nat js_value" "[]"]
    of_fails_iff_absent [of "Undefined :: nat js_value" "[]"]
    of_fails_iff_absent [of "Val (5 :: nat)" "[]"]
  by auto

text \<open>
  Claim C2. For every \<open>v\<close>, nullish or not, \<open>ofNullable(v)\<close> returns (the call as a whole
  ends in \<open>Inr\<close>, never in an error) a reference to a new object, and that object is
  present exactly when \<open>v\<close> is neither \<open>null\<close> nor \<open>undefined\<close>.
\<close>

theorem ofNullable_present_iff:
  "\<exists>r h' this. ofNullable v h = (r, h')
     \<and> lookup h r = None \<and> h' = h @ [this] \<and> lookup h' r = Some this
     \<and> isPresent this = (v \<noteq> Null \<and> v \<noteq> Undefined)
     \<and> run (CallOfNullable v) (h, s) = (Inr (Instance r), (h', s))"
  by (simp add: ofNullable_def OptionalValue_new_def lookup_def isPresent_def)

text \<open>
  Claim C3. \<open>empty()\<close> returns (never an error) a reference to a new object that is not
  present and whose \<open>get\<close> returns \<open>null\<close>, the value \<open>get\<close> documents for absence.
\<close>

theorem empty_absent:
  "\<exists>r h' this. OptionalValue_empty h = (r, h')
     \<and> lookup h r = None \<and> h' = h @ [this] \<and> lookup h' r = Some this
     \<and> \<not> isPresent this \<and> get this = Null
     \<and> run CallEmpty (h, s) = (Inr (Instance r), (h', s))"
  by (simp add: OptionalValue_empty_def OptionalValue_new_def lookup_def isPresent_def get_def)

section \<open>Reading the value\<close>

text \<open>
  Claim C4 says that \<open>get\<close> on an absent instance returns one and the same marker however
  the instance was built. The code returns the stored field as it is: the instance built
  by \<open>ofNullable(undefined)\<close> is absent and its \<open>get\<close> returns \<open>undefined\<close>, while the
  instances built by \<open>empty()\<close> and \<open>ofNullable(null)\<close> are absent and their \<open>get\<close>
  returns \<open>null\<close>; the two results are different values.
\<close>

theorem get_absent_depends_on_construction:
  "(\<exists>r h' this. ofNullable (Undefined :: nat js_value) [] = (r, h')
      \<and> lookup h' r = Some this \<and> \<not> isPresent this \<and> get this = Undefined)
   \<and> (\<exists>r h' this. ofNullable (Null :: nat js_value) [] = (r, h')
      \<and> lookup h' r = Some this \<and> \<not> isPresent this \<and> get this = Null)
   \<and> (\<exists>r h' this. OptionalValue_empty [] = (r, h')
      \<and> lookup h' r = Some this \<and> \<not> isPresent this \<and> get this = (Null :: nat js_value))
   \<and> (Undefined :: nat js_value) \<noteq> Null"
  by (simp add: ofNullable_def OptionalValue_empty_def OptionalValue_new_def lookup_def
      isPresent_def get_def)

text \<open>The part of the claim that does hold: \<open>get\<close> on a present instance is the wrapped value.\<close>

lemma get_returns_field: "get \<lparr>value = v\<rparr> = v"
  by (simp add: get_def)

section \<open>Fallbacks\<close>

text \<open>
  Claim C5. On a present instance \<open>orElse(fallback)\<close> is \<open>get()\<close>, whatever the fallback;
  on an absent one it is the fallback itself. The call always returns (\<open>Inr\<close>) and leaves
  the store and the caller's state as they were.
\<close>

theorem orElse_present_absent:
  "(isPresent this \<longrightarrow> orElse this other = get this)
   \<and> (\<not> isPresent this \<longrightarrow> orElse this other = other)
   \<and> run (CallOrElse this other) (h, s) = (Inr (Value (orElse this other)), (h, s))"
  by (simp add: orElse_def get_def)

theorem orElse_present_absent_witness:
  "isPresent \<lparr>value = Val (1 :: nat)\<rparr>
   \<and> orElse \<lparr>value = Val (1 :: nat)\<rparr> (Val 2) = Val 1
   \<and> \<not> isPresent \<lparr>value = (Null :: nat js_value)\<rparr>
   \<and> orElse \<lparr>value = Null\<rparr> (Val (2 :: nat)) = Val 2
   \<and> \<not> isPresent \<lparr>value = (Undefined :: nat js_value)\<rparr>
   \<and> orElse \<lparr>value = Undefined\<rparr> (Val (2 :: nat)) = Val 2"
  using orElse_present_absent [of "\<lparr>value = Val (1 :: nat)\<rparr>" "Val 2"]
    orElse_present_absent [of "\<lparr>value = Null\<rparr>" "Val (2 :: nat)"]
    orElse_present_absent [of "\<lparr>value = Undefined\<rparr>" "Val (2 :: nat)"]
  by (simp add: isPresent_def get_def)

text \<open>
  Claim C6. On a present instance \<open>orElseGet(supplier)\<close> returns the wrapped value and
  the supplier does not run: the caller's state and the call counter are unchanged. On an
  absent instance the call is one run of the supplier: its result is returned, its effect
  on the state is kept and the counter goes up by exactly one.
\<close>

theorem orElseGet_supplier_calls:
  "(isPresent this \<longrightarrow>
      orElseGet this supplier s = (Inr (get this), s)
      \<and> orElseGet this (counting supplier) (n, s) = (Inr (get this), (n, s)))
   \<and> (\<not> isPresent this \<longrightarrow>
      orElseGet this supplier s = supplier s
      \<and> orElseGet this (counting supplier) (n, s)
          = (fst (supplier s), (Suc n, snd (supplier s))))"
  by (simp add: orElseGet_def get_def counting_def split: prod.split)

theorem orElseGet_supplier_calls_witness:
  "isPresent \<lparr>value = Val (1 :: nat)\<rparr>
   \<and> orElseGet \<lparr>value = Val (1 :: nat)\<rparr>
         (counting (\<lambda>s :: nat. (Inr (Val 7), s + 10))) (0, 0)
       = (Inr (Val 1), (0, 0))
   \<and> \<not> isPresent \<lparr>value = (Null :: nat js_value)\<rparr>
   \<and> orElseGet \<lparr>value = Null\<rparr>
         (counting (\<lambda>s :: nat. (Inr (Val (7 :: nat)), s + 10))) (0, 0)
       = (Inr (Val 7), (Suc 0, 10))
   \<and> \<not> isPresent \<lparr>value = (Undefined :: nat js_value)\<rparr>
   \<and> orElseGet \<lparr>value = Undefined\<rparr>
         (counting (\<lambda>s :: nat. (Inr (Val (7 :: nat)), s + 10))) (0, 0)
       = (Inr (Val 7), (Suc 0, 10))"
  using orElseGet_supplier_calls [where this = "\<lparr>value = Val (1 :: nat)\<rparr>"
      and supplier = "\<lambda>s :: nat. (Inr (Val 7), s + 10)" and s = 0 and n = 0]
    orElseGet_supplier_calls [where this = "\<lparr>value = Null\<rparr>"
      and supplier = "\<lambda>s :: nat. (Inr (Val (7 :: nat)), s + 10)" and s = 0 and n = 0]
    orElseGet_supplier_calls [where this = "\<lparr>value = Undefined\<rparr>"
      and supplier = "\<lambda>s :: nat. (Inr (Val (7 :: nat)), s + 10)" and s = 0 and n = 0]
  by (simp add: isPresent_def get_def)

text \<open>
  Claim C7. On a present instance \<open>orElseThrow(factory)\<close> returns the wrapped value and
  the factory does not run. On an absent instance the factory runs exactly once, and the
  call ends in the very error \<open>e\<close> the factory returned, with the factory's effect on the
  state kept.
\<close>

theorem orElseThrow_factory_calls:
  "(isPresent this \<longrightarrow>
      orElseThrow this error s = (Inr (get this), s)
      \<and> orElseThrow this (counting error) (n, s) = (Inr (get this), (n, s)))
   \<and> (\<not> isPresent this \<and> error s = (Inr e, s') \<longrightarrow>
      orElseThrow this error s = (Inl e, s')
      \<and> orElseThrow this (counting error) (n, s) = (Inl e, (Suc n, s')))"
  by (simp add: orElseThrow_def get_def counting_def)

theorem orElseThrow_factory_calls_witness:
  "isPresent \<lparr>value = Val (1 :: nat)\<rparr>
   \<and> orElseThrow \<lparr>value = Val (1 :: nat)\<rparr>
         (counting (\<lambda>s :: nat. (Inr (Error ''missing''), s + 10))) (0, 0)
       = (Inr (Val 1), (0, 0))
   \<and> \<not> isPresent \<lparr>value = (Null :: nat js_value)\<rparr>
   \<and> orElseThrow \<lparr>value = (Null :: nat js_value)\<rparr>
         (counting (\<lambda>s :: nat. (Inr (Error ''missing''), s + 10))) (0, 0)
       = (Inl (Error ''missing''), (Suc 0, 10))
   \<and> \<not> isPresent \<lparr>value = (Undefined :: nat js_value)\<rparr>
   \<and> orElseThrow \<lparr>value = (Undefined :: nat js_value)\<rparr>
         (counting (\<lambda>s :: nat. (Inr (Error ''missing''), s + 10))) (0, 0)
       = (Inl (Error ''missing''), (Suc 0, 10))"
  using orElseThrow_factory_calls [where this = "\<lparr>value = Val (1 :: nat)\<rparr>"
      and error = "\<lambda>s :: nat. (Inr (Error ''missing''), s + 10)" and s = 0 and n = 0]
    orElseThrow_factory_calls [where this = "\<lparr>value = (Null :: nat js_value)\<rparr>"
      and error = "\<lambda>s :: nat. (Inr (Error ''missing''), s + 10)" and s = 0
      and e = "Error ''missing''" and s' = 10 and n = 0]
    orElseThrow_factory_calls [where this = "\<lparr>value = (Undefined :: nat js_value)\<rparr>"
      and error = "\<lambda>s :: nat. (Inr (Error ''missing''), s + 10)" and s = 0
      and e = "Error ''missing''" and s' = 10 and n = 0]
  by (simp add: isPresent_def get_def)

text \<open>A factory that throws instead of returning: its own error is what propagates.\<close>

lemma orElseThrow_factory_throws:
  "\<not> isPresent this \<Longrightarrow> error s = (Inl e, s') \<Longrightarrow> orElseThrow this error s = (Inl e, s')"
  by (simp add: orElseThrow_def)

section \<open>Running a consumer\<close>

text \<open>
  Claim C8. On a present instance \<open>ifPresent(consumer)\<close> is one run of the consumer on the
  wrapped value: the log of arguments grows by exactly that value, the consumer's effect
  on the state is kept, and the call returns nothing (the unit value), whatever the
  consumer returned; an error thrown by the consumer propagates. On an absent instance
  the consumer does not run: log and state are unchanged and the call returns nothing.
\<close>

theorem ifPresent_consumer_calls:
  "(isPresent this \<and> consumer (get this) s = (Inr x, s') \<longrightarrow>
      ifPresent this consumer s = (Inr (), s')
      \<and> ifPresent this (recording consumer) (log, s) = (Inr (), (log @ [get this], s')))
   \<and> (isPresent this \<and> consumer (get this) s = (Inl e, s') \<longrightarrow>
      ifPresent this consumer s = (Inl e, s')
      \<and> ifPresent this (recording consumer) (log, s) = (Inl e, (log @ [get this], s')))
   \<and> (\<not> isPresent this \<longrightarrow>
      ifPresent this consumer s = (Inr (), s)
      \<and> ifPresent this (recording consumer) (log, s) = (Inr (), (log, s)))"
  by (simp add: ifPresent_def get_def recording_def)

theorem ifPresent_consumer_calls_witness:
  "isPresent \<lparr>value = Val (1 :: nat)\<rparr>
   \<and> ifPresent \<lparr>value = Val (1 :: nat)\<rparr>
         (recording (\<lambda>v (s :: nat). (Inr v, s + 10))) ([], 0)
       = (Inr (), ([Val 1], 10))
   \<and> ifPresent \<lparr>value = Val (1 :: nat)\<rparr>
         (recording (\<lambda>v (s :: nat). (Inl (Error ''no'') :: js_error + unit, s + 10))) ([], 0)
       = (Inl (Error ''no''), ([Val 1], 10))
   \<and> \<not> isPresent \<lparr>value = (Null :: nat js_value)\<rparr>
   \<and> ifPresent \<lparr>value = (Null :: nat js_value)\<rparr>
         (recording (\<lambda>v (s :: nat). (Inr v, s + 10))) ([], 0)
       = (Inr (), ([], 0))
   \<and> \<not> isPresent \<lparr>value = (Undefined :: nat js_value)\<rparr>
   \<and> ifPresent \<lparr>value = (Undefined :: nat js_value)\<rparr>
         (recording (\<lambda>v (s :: nat). (Inr v, s + 10))) ([], 0)
       = (Inr (), ([], 0))"
  using ifPresent_consumer_calls [where this = "\<lparr>value = Val (1 :: nat)\<rparr>"
      and consumer = "\<lambda>v (s :: nat). (Inr v, s + 10)" and log = "[]" and s = 0
      and x = "Val 1" and s' = 10]
    ifPresent_consumer_calls [where this = "\<lparr>value = Val (1 :: nat)\<rparr>"
      and consumer = "\<lambda>v (s :: nat). (Inl (Error ''no'') :: js_error + unit, s + 10)"
      and log = "[]" and s = 0 and e = "Error ''no''" and s' = 10]
    ifPresent_consumer_calls [where this = "\<lparr>value = (Null :: nat js_value)\<rparr>"
      and consumer = "\<lambda>v (s :: nat). (Inr v, s + 10)" and log = "[]" and s = 0]
    ifPresent_consumer_calls [where this = "\<lparr>value = (Undefined :: nat js_value)\<rparr>"
      and consumer = "\<lambda>v (s :: nat). (Inr v, s + 10)" and log = "[]" and s = 0]
  by (simp add: isPresent_def get_def)

section \<open>Which calls can fail\<close>

text \<open>
  Claim C9. Take any call of a public member, on any store and caller state, whose
  callback (if it has one) returns normally. The call ends in an error exactly when it is
  \<open>of\<close> on \<open>null\<close> or \<open>undefined\<close>, or \<open>orElseThrow\<close> on an absent instance; and the error
  is then the fixed one of \<open>of\<close>, or the one the caller's factory returned. Every call of
  \<open>ofNullable\<close>, \<open>empty\<close>, \<open>get\<close>, \<open>isPresent\<close>, \<open>ifPresent\<close>, \<open>orElse\<close> and \<open>orElseGet\<close>
  therefore returns.
\<close>

theorem only_of_and_orElseThrow_fail:
  "callback_returns c s \<Longrightarrow>
     (isl (fst (run c (h, s)))
        = ((\<exists>v. c = CallOf v \<and> (v = Null \<or> v = Undefined))
           \<or> (\<exists>this error. c = CallOrElseThrow this error \<and> \<not> isPresent this)))
     \<and> (\<forall>e. fst (run c (h, s)) = Inl e \<longrightarrow>
          (\<exists>v. c = CallOf v \<and> e = Error ''Value cannot be null or undefined'')
          \<or> (\<exists>this error. c = CallOrElseThrow this error \<and> fst (error s) = Inr e))"
  using run_fails_iff [of c s h] run_error [of c s h] by blast

theorem only_of_and_orElseThrow_fail_witness:
  "callback_returns (CallOf (Null :: nat js_value) :: (nat, nat, unit) call) 0
   \<and> isl (fst (run (CallOf (Null :: nat js_value) :: (nat, nat, unit) call) ([], 0)))
   \<and> callback_returns (CallOrElseThrow \<lparr>value = (Undefined :: nat js_value)\<rparr>
         (\<lambda>s :: nat. (Inr (Error ''missing''), s)) :: (nat, nat, unit) call) 0
   \<and> isl (fst (run (CallOrElseThrow \<lparr>value = (Undefined :: nat js_value)\<rparr>
         (\<lambda>s :: nat. (Inr (Error ''missing''), s)) :: (nat, nat, unit) call) ([], 0)))
   \<and> callback_returns (CallOrElseGet \<lparr>value = (Null :: nat js_value)\<rparr>
         (\<lambda>s :: nat. (Inr (Val 7), s)) :: (nat, nat, unit) call) 0
   \<and> \<not> isl (fst (run (CallOrElseGet \<lparr>value = (Null :: nat js_value)\<rparr>
         (\<lambda>s :: nat. (Inr (Val 7), s)) :: (nat, nat, unit) call) ([], 0)))
   \<and> callback_returns (CallIfPresent \<lparr>value = Val (1 :: nat)\<rparr>
         (\<lambda>v (s :: nat). (Inr (), Suc s)) :: (nat, nat, unit) call) 0
   \<and> \<not> isl (fst (run (CallIfPresent \<lparr>value = Val (1 :: nat)\<rparr>
         (\<lambda>v (s :: nat). (Inr (), Suc s)) :: (nat, nat, unit) call) ([], 0)))"
  using only_of_and_orElseThrow_fail
      [where c = "CallOf (Null :: nat js_value) :: (nat, nat, unit) call" and s = 0 and h = "[]"]
    only_of_and_orElseThrow_fail
      [where c = "CallOrElseThrow \<lparr>value = (Undefined :: nat js_value)\<rparr>
         (\<lambda>s :: nat. (Inr (Error ''missing''), s)) :: (nat, nat, unit) call"
       and s = 0 and h = "[]"]
    only_of_and_orElseThrow_fail
      [where c = "CallOrElseGet \<lparr>value = (Null :: nat js_value)\<rparr>
         (\<lambda>s :: nat. (Inr (Val 7), s)) :: (nat, nat, unit) call"
       and s = 0 and h = "[]"]
    only_of_and_orElseThrow_fail
      [where c = "CallIfPresent \<lparr>value = Val (1 :: nat)\<rparr>
         (\<lambda>v (s :: nat). (Inr (), Suc s)) :: (nat, nat, unit) call"
       and s = 0 and h = "[]"]
  by (simp add: isPresent_def)

section \<open>The two ways to wrap a proper value\<close>

text \<open>
  Claim C10. For \<open>v\<close> neither \<open>null\<close> nor \<open>undefined\<close>, \<open>of(v)\<close> and \<open>ofNullable(v)\<close> both
  return, and the objects they create are equal: both hold \<open>v\<close> and are present, so
  \<open>get\<close>, \<open>isPresent\<close>, \<open>ifPresent\<close>, \<open>orElse\<close>, \<open>orElseGet\<close> and \<open>orElseThrow\<close> give the same
  results on them for all arguments. Called on the same store, the two even return the
  same reference and the same new store.
\<close>

theorem ofNullable_same_as_of:
  "v \<noteq> Null \<and> v \<noteq> Undefined \<Longrightarrow>
     \<exists>r1 h1 r2 h2 this1 this2.
       OptionalValue_of v h = Inr (r1, h1) \<and> lookup h1 r1 = Some this1
       \<and> ofNullable v h' = (r2, h2) \<and> lookup h2 r2 = Some this2
       \<and> this1 = this2 \<and> value this1 = v \<and> isPresent this1
       \<and> get this1 = get this2
       \<and> isPresent this1 = isPresent this2
       \<and> (\<forall>consumer :: 'a js_value \<Rightarrow> ('s, 'r) js_fun.
            ifPresent this1 consumer = ifPresent this2 consumer)
       \<and> (\<forall>other. orElse this1 other = orElse this2 other)
       \<and> (\<forall>supplier :: ('s, 'a js_value) js_fun.
            orElseGet this1 supplier = orElseGet this2 supplier)
       \<and> (\<forall>error :: ('s, js_error) js_fun.
            orElseThrow this1 error = orElseThrow this2 error)
       \<and> (h' = h \<longrightarrow> r1 = r2 \<and> h1 = h2)"
  by (simp add: OptionalValue_of_def ofNullable_def OptionalValue_new_def lookup_def
      isPresent_def)

theorem ofNullable_same_as_of_witness:
  "(Val (5 :: nat) \<noteq> Null \<and> Val (5 :: nat) \<noteq> Undefined)
   \<and> (\<exists>r1 h1 r2 h2 this1 this2.
       OptionalValue_of (Val (5 :: nat)) [] = Inr (r1, h1) \<and> lookup h1 r1 = Some this1
       \<and> ofNullable (Val (5 :: nat)) [\<lparr>value = Null\<rparr>] = (r2, h2)
       \<and> lookup h2 r2 = Some this2
       \<and> this1 = this2 \<and> get this1 = Val 5 \<and> get this2 = Val 5)"
  using ofNullable_same_as_of
      [where v = "Val (5 :: nat)" and h = "[]" and h' = "[\<lparr>value = Null\<rparr>]"]
  by (auto simp: get_def)

end
